theory Spec2Isabelle
  imports Main
begin

section \<open>JavaScript values\<close>

text \<open>
  The SDK is untyped JavaScript: a decoded payload, a caller's argument and an attachment
  are arbitrary values. \<open>Num\<close> holds the integral numbers (room ids, positions); an
  object is the list of its own properties, looked up by name (first match); \<open>Fun\<close> is a
  function value with its \<open>name\<close> property.
\<close>

datatype jsval =
    Undefined
  | Null
  | Bool bool
  | Num int
  | Str string
  | Arr "jsval list"
  | Obj "(string \<times> jsval) list"
  | Fun string

datatype error =
    TypeError string
  | SyntaxError string
  | TransportError string

text \<open>The operator \<^verbatim>\<open>typeof\<close>.\<close>

fun typeof :: "jsval \<Rightarrow> string" where
  "typeof Undefined = ''undefined''"
| "typeof Null = ''object''"
| "typeof (Bool b) = ''boolean''"
| "typeof (Num n) = ''number''"
| "typeof (Str s) = ''string''"
| "typeof (Arr xs) = ''object''"
| "typeof (Obj fs) = ''object''"
| "typeof (Fun f) = ''function''"

text \<open>Truthiness, as \<^verbatim>\<open>if (data)\<close>, \<^verbatim>\<open>a || b\<close> and \<^verbatim>\<open>c ? x : y\<close> test it.\<close>

fun truthy :: "jsval \<Rightarrow> bool" where
  "truthy Undefined = False"
| "truthy Null = False"
| "truthy (Bool b) = b"
| "truthy (Num n) = (n \<noteq> 0)"
| "truthy (Str s) = (s \<noteq> [])"
| "truthy (Arr xs) = True"
| "truthy (Obj fs) = True"
| "truthy (Fun f) = True"

text \<open>
  Reading a property, \<^verbatim>\<open>data.k\<close> (and destructuring \<^verbatim>\<open>({ k }) => ...\<close>): a TypeError on
  \<^verbatim>\<open>undefined\<close> and \<^verbatim>\<open>null\<close>, the own property of an object, \<^verbatim>\<open>undefined\<close> when there is
  none. Of the inherited properties only those with a name this program reads are
  written out: a string inherits the method \<^verbatim>\<open>link\<close>, a function has a \<^verbatim>\<open>name\<close>.
\<close>

fun read_prop :: "string \<Rightarrow> jsval \<Rightarrow> error + jsval" where
  "read_prop k Undefined = Inl (TypeError (''Cannot read property '' @ k @ '' of undefined''))"
| "read_prop k Null = Inl (TypeError (''Cannot read property '' @ k @ '' of null''))"
| "read_prop k (Obj fs) = Inr (case map_of fs k of None \<Rightarrow> Undefined | Some v \<Rightarrow> v)"
| "read_prop k (Str s) = Inr (if k = ''link'' then Fun ''link'' else Undefined)"
| "read_prop k (Fun f) = Inr (if k = ''name'' then Str f else Undefined)"
| "read_prop k (Bool b) = Inr Undefined"
| "read_prop k (Num n) = Inr Undefined"
| "read_prop k (Arr xs) = Inr Undefined"

text \<open>A property of a value that is known not to be \<^verbatim>\<open>undefined\<close> or \<^verbatim>\<open>null\<close>.\<close>

definition field :: "string \<Rightarrow> jsval \<Rightarrow> jsval" where
  "field k v = (case read_prop k v of Inl e \<Rightarrow> Undefined | Inr x \<Rightarrow> x)"

text \<open>Ramda's \<^verbatim>\<open>contains(a, list)\<close>: membership by value.\<close>

definition contains :: "jsval \<Rightarrow> jsval list \<Rightarrow> bool" where
  "contains a xs = (a \<in> set xs)"

section \<open>parsers.js\<close>

record basicRoom =
  createdAt :: jsval
  createdByUserId :: jsval
  deletedAt :: jsval
  room_id :: jsval
  isPrivate :: jsval
  room_name :: jsval
  updatedAt :: jsval
  userIds :: jsval

record presence =
  lastSeenAt :: jsval
  presence_state :: jsval
  presence_userId :: jsval

text \<open>
  \<^verbatim>\<open>parseBasicRoom\<close> builds an object literal from eight property reads of the payload, in
  the order of the literal; the first read that throws ends it.
\<close>

definition parseBasicRoom :: "jsval \<Rightarrow> error + basicRoom" where
  "parseBasicRoom data =
     (case read_prop ''created_at'' data of Inl e \<Rightarrow> Inl e | Inr v_createdAt \<Rightarrow>
      case read_prop ''created_by_id'' data of Inl e \<Rightarrow> Inl e | Inr v_createdByUserId \<Rightarrow>
      case read_prop ''deletedAt'' data of Inl e \<Rightarrow> Inl e | Inr v_deletedAt \<Rightarrow>
      case read_prop ''id'' data of Inl e \<Rightarrow> Inl e | Inr v_id \<Rightarrow>
      case read_prop ''private'' data of Inl e \<Rightarrow> Inl e | Inr v_isPrivate \<Rightarrow>
      case read_prop ''name'' data of Inl e \<Rightarrow> Inl e | Inr v_name \<Rightarrow>
      case read_prop ''updated_at'' data of Inl e \<Rightarrow> Inl e | Inr v_updatedAt \<Rightarrow>
      case read_prop ''member_user_ids'' data of Inl e \<Rightarrow> Inl e | Inr v_userIds \<Rightarrow>
        Inr \<lparr> createdAt = v_createdAt, createdByUserId = v_createdByUserId,
              deletedAt = v_deletedAt, room_id = v_id, isPrivate = v_isPrivate,
              room_name = v_name, updatedAt = v_updatedAt, userIds = v_userIds \<rparr>)"

definition parsePresence :: "jsval \<Rightarrow> error + presence" where
  "parsePresence data =
     (case read_prop ''last_seen_at'' data of Inl e \<Rightarrow> Inl e | Inr v_lastSeenAt \<Rightarrow>
      case read_prop ''state'' data of Inl e \<Rightarrow> Inl e | Inr v_state \<Rightarrow>
      case read_prop ''user_id'' data of Inl e \<Rightarrow> Inl e | Inr v_userId \<Rightarrow>
        Inr \<lparr> lastSeenAt = v_lastSeenAt,
              presence_state =
                (if contains v_state [Str ''online'', Str ''offline''] then v_state
                 else Str ''unknown''),
              presence_userId = v_userId \<rparr>)"

text \<open>
  A payload key is snake_case when it is made of lower-case letters, digits and
  underscores only.
\<close>

definition snake_case :: "string \<Rightarrow> bool" where
  "snake_case k = list_all (\<lambda>c. c \<in> set ''abcdefghijklmnopqrstuvwxyz0123456789_'') k"

section \<open>Promises, effects and the collaborators\<close>

text \<open>
  A promise is followed until it settles or stays pending. A call that returns a promise
  is a function from the state to the promise's outcome and the state it leaves;
  \<^verbatim>\<open>.then\<close> and \<^verbatim>\<open>.catch\<close> run their callback on that state.
\<close>

datatype 'a promise = Resolved 'a | Rejected error | Pending

definition then_p ::
  "'a promise \<times> 's \<Rightarrow> ('a \<Rightarrow> 's \<Rightarrow> 'b promise \<times> 's) \<Rightarrow> 'b promise \<times> 's" where
  "then_p ps f =
     (case ps of
        (Resolved v, s) \<Rightarrow> f v s
      | (Rejected e, s) \<Rightarrow> (Rejected e, s)
      | (Pending, s) \<Rightarrow> (Pending, s))"

definition catch_p ::
  "'a promise \<times> 's \<Rightarrow> (error \<Rightarrow> 's \<Rightarrow> 'a promise \<times> 's) \<Rightarrow> 'a promise \<times> 's" where
  "catch_p ps f =
     (case ps of
        (Resolved v, s) \<Rightarrow> (Resolved v, s)
      | (Rejected e, s) \<Rightarrow> f e s
      | (Pending, s) \<Rightarrow> (Pending, s))"

text \<open>
  Modelled from the spec: \<^verbatim>\<open>cursor.js\<close> and \<^verbatim>\<open>parseBasicCursor\<close> are not among the sources.
  A cursor has the composite key (userId, roomId), a position, an updated timestamp and a
  type (0 is the read marker). \<^verbatim>\<open>new Cursor(basicCursor, userStore, roomStore)\<close> keeps these
  fields and the two store references, which here are the stores of the state.
\<close>

record basicCursor =
  position :: int
  cursor_updatedAt :: string
  cursor_userId :: string
  cursor_roomId :: int
  cursor_type :: int

type_synonym Cursor = basicCursor

text \<open>
  What a store holds and what a promise of the cursor store resolves with: a plain value
  (\<^verbatim>\<open>undefined\<close> is \<open>Plain Undefined\<close>), a decorated cursor, or an array.
\<close>

datatype val = Plain jsval | CursorV Cursor | ArrayV "val list"

fun truthy_val :: "val \<Rightarrow> bool" where
  "truthy_val (Plain v) = truthy v"
| "truthy_val (CursorV c) = True"
| "truthy_val (ArrayV vs) = True"

text \<open>
  \<^verbatim>\<open>Promise.all\<close>: rejected with the first rejection, else pending while one is pending, else
  resolved with the array of the values.
\<close>

fun Promise_all :: "val promise list \<Rightarrow> val promise" where
  "Promise_all [] = Resolved (ArrayV [])"
| "Promise_all (p # ps) =
     (case p of
        Rejected e \<Rightarrow> Rejected e
      | Resolved v \<Rightarrow>
          (case Promise_all ps of
             Resolved (ArrayV vs) \<Rightarrow> Resolved (ArrayV (v # vs))
           | r \<Rightarrow> r)
      | Pending \<Rightarrow>
          (case Promise_all ps of
             Rejected e \<Rightarrow> Rejected e
           | r \<Rightarrow> Pending))"

text \<open>
  Modelled from the spec: \<^verbatim>\<open>store.js\<close> (the class \<^verbatim>\<open>Store\<close>) is not among the sources.
  A store holds a mapping and whether it has been initialized. \<^verbatim>\<open>initialize\<close> merges the
  entries whose key is not already present; \<^verbatim>\<open>set\<close> overwrites unconditionally;
  \<^verbatim>\<open>getSync\<close> is the current value or \<^verbatim>\<open>undefined\<close>; \<^verbatim>\<open>get\<close> waits for the first
  initialization and is then \<^verbatim>\<open>getSync\<close>. A key can be present with the value
  \<^verbatim>\<open>undefined\<close>.
\<close>

record Store =
  entries :: "string \<rightharpoonup> val"
  initialized :: bool

definition Store_initialize :: "(string \<rightharpoonup> val) \<Rightarrow> Store \<Rightarrow> Store" where
  "Store_initialize initial s = s\<lparr> entries := initial ++ entries s, initialized := True \<rparr>"

definition Store_set :: "string \<Rightarrow> val \<Rightarrow> Store \<Rightarrow> Store" where
  "Store_set k v s = s\<lparr> entries := (entries s)(k \<mapsto> v) \<rparr>"

definition Store_getSync :: "string \<Rightarrow> Store \<Rightarrow> val" where
  "Store_getSync k s = (case entries s k of None \<Rightarrow> Plain Undefined | Some v \<Rightarrow> v)"

definition Store_get :: "string \<Rightarrow> Store \<Rightarrow> val promise" where
  "Store_get k s = (if initialized s then Resolved (Store_getSync k s) else Pending)"

text \<open>
  Modelled from the spec: \<^verbatim>\<open>room.js\<close> and \<^verbatim>\<open>room-store.js\<close> are not among the sources.
  A room of the room store: a numeric id and the ids of its members, among other fields.
\<close>

record Room =
  Room_id :: int
  Room_name :: string
  Room_userIds :: "string list"

text \<open>
  The requests the modelled operations issue, by instance and path:
  \<^verbatim>\<open>cursorsInstance\<close> GET \<^verbatim>\<open>/cursors/0/rooms/{roomId}/users/{userId}\<close>;
  \<^verbatim>\<open>filesInstance\<close> POST \<^verbatim>\<open>/rooms/{roomId}/files/{name}\<close> with the file in the body;
  \<^verbatim>\<open>apiInstance\<close> POST \<^verbatim>\<open>/rooms/{roomId}/messages\<close> with the json \<^verbatim>\<open>{ text, attachment }\<close>.
\<close>

datatype request =
    GET_cursor int string
  | POST_file jsval jsval jsval
  | POST_message jsval jsval jsval

text \<open>Everything an operation does to the outside, in the order it does it.\<close>

datatype event =
    Request request
  | Logger_warn string error
  | Logger_error error
  | FetchMissingUsers "string list"
  | Hook_onNewReadCursor Cursor

text \<open>
  The collaborators that are not among the sources are parameters: what a request
  settles with, \<^verbatim>\<open>JSON.parse\<close>, \<^verbatim>\<open>parseBasicCursor\<close>, what \<^verbatim>\<open>userStore.fetchMissingUsers\<close>
  settles with and does to the user store, and the value the promise of \<^verbatim>\<open>Store.set\<close>
  resolves with (given the value stored).
\<close>

record env =
  request :: "request \<Rightarrow> string promise"
  JSON_parse :: "string \<Rightarrow> error + jsval"
  parseBasicCursor :: "jsval \<Rightarrow> basicCursor"
  fetchMissingUsers :: "string list \<Rightarrow> Store \<Rightarrow> val promise \<times> Store"
  set_resolves :: "val \<Rightarrow> val"

text \<open>
  The session: the local user's id, the stores, the rooms of the room store
  (\<^verbatim>\<open>this.rooms\<close>), the room ids that have an entry in \<^verbatim>\<open>this.roomSubscriptions\<close>, and the
  effects so far.
\<close>

record state =
  this_id :: string
  cursorStore :: Store
  userStore :: Store
  rooms :: "Room list"
  roomSubscriptions :: "int set"
  trace :: "event list"

definition instance_request :: "env \<Rightarrow> request \<Rightarrow> state \<Rightarrow> string promise \<times> state" where
  "instance_request env req st = (request env req, st\<lparr> trace := trace st @ [Request req] \<rparr>)"

definition UserStore_fetchMissingUsers ::
  "env \<Rightarrow> string list \<Rightarrow> state \<Rightarrow> val promise \<times> state" where
  "UserStore_fetchMissingUsers env ids st =
     (let (p, us) = fetchMissingUsers env ids (userStore st)
      in (p, st\<lparr> userStore := us, trace := trace st @ [FetchMissingUsers ids] \<rparr>))"

text \<open>
  Modelled from the spec: \<^verbatim>\<open>utils.js\<close> (\<^verbatim>\<open>typeCheck\<close>) is not among the sources. A
  validation error is raised, as a TypeError, when the argument has not the expected type.
\<close>

definition typeCheck :: "string \<Rightarrow> string \<Rightarrow> jsval \<Rightarrow> error + unit" where
  "typeCheck name expectedType v =
     (if typeof v \<noteq> expectedType
      then Inl (TypeError (''expected '' @ name @ '' to be of type '' @ expectedType @
                           '' but was of type '' @ typeof v))
      else Inr ())"

text \<open>The number and the string held by a value that passed its \<^verbatim>\<open>typeCheck\<close>.\<close>

fun num_of :: "jsval \<Rightarrow> int" where
  "num_of (Num n) = n"
| "num_of v = 0"

fun str_of :: "jsval \<Rightarrow> string" where
  "str_of (Str s) = s"
| "str_of v = []"

text \<open>An integral number in a template string: its decimal digits.\<close>

fun digits :: "nat \<Rightarrow> string" where
  "digits n =
     (if n < 10 then [''0123456789'' ! n]
      else digits (n div 10) @ [''0123456789'' ! (n mod 10)])"

definition num_str :: "int \<Rightarrow> string" where
  "num_str i = (if i < 0 then CHR ''-'' # digits (nat (- i)) else digits (nat i))"

declare digits.simps [simp del]

section \<open>cursor-store.js\<close>

definition key :: "string \<Rightarrow> int \<Rightarrow> string" where
  "key userId roomId = userId @ ''/'' @ num_str roomId"

text \<open>
  \<^verbatim>\<open>decorate\<close>: a basic cursor becomes a decorated one, \<^verbatim>\<open>undefined\<close> (here \<open>None\<close>)
  stays \<^verbatim>\<open>undefined\<close>.
\<close>

fun decorate :: "basicCursor option \<Rightarrow> val" where
  "decorate (Some basicCursor) = CursorV basicCursor"
| "decorate None = Plain Undefined"

definition CursorStore_initialize ::
  "(string \<rightharpoonup> basicCursor option) \<Rightarrow> state \<Rightarrow> state" where
  "CursorStore_initialize initial st =
     st\<lparr> cursorStore :=
           Store_initialize (\<lambda>k. map_option decorate (initial k)) (cursorStore st) \<rparr>"

text \<open>
  \<^verbatim>\<open>set\<close> returns \<^verbatim>\<open>Promise.all\<close> of the store's \<^verbatim>\<open>set\<close> and of \<^verbatim>\<open>fetchMissingUsers\<close>; both
  are started when the array is built, the store first.
\<close>

definition CursorStore_set ::
  "env \<Rightarrow> string \<Rightarrow> int \<Rightarrow> basicCursor option \<Rightarrow> state \<Rightarrow> val promise \<times> state" where
  "CursorStore_set env userId roomId cursor st =
     (let st1 = st\<lparr> cursorStore := Store_set (key userId roomId) (decorate cursor) (cursorStore st) \<rparr>;
          p1 = Resolved (set_resolves env (decorate cursor));
          (p2, st2) = UserStore_fetchMissingUsers env [userId] st1
      in (Promise_all [p1, p2], st2))"

definition CursorStore_getSync :: "string \<Rightarrow> int \<Rightarrow> state \<Rightarrow> val" where
  "CursorStore_getSync userId roomId st = Store_getSync (key userId roomId) (cursorStore st)"

definition fetchBasicCursor ::
  "env \<Rightarrow> string \<Rightarrow> int \<Rightarrow> state \<Rightarrow> basicCursor option promise \<times> state" where
  "fetchBasicCursor env userId roomId st =
     catch_p
       (then_p (instance_request env (GET_cursor roomId userId) st)
          (\<lambda>res s.
             (case JSON_parse env res of
                Inl e \<Rightarrow> (Rejected e, s)
              | Inr data \<Rightarrow>
                  (if truthy data then (Resolved (Some (parseBasicCursor env data)), s)
                   else (Resolved None, s)))))
       (\<lambda>err s. (Rejected err, s\<lparr> trace := trace s @ [Logger_warn ''error fetching cursor:'' err] \<rparr>))"

definition CursorStore_get ::
  "env \<Rightarrow> string \<Rightarrow> int \<Rightarrow> state \<Rightarrow> val promise \<times> state" where
  "CursorStore_get env userId roomId st =
     then_p (Store_get (key userId roomId) (cursorStore st), st)
       (\<lambda>cursor s.
          if truthy_val cursor then (Resolved cursor, s)
          else then_p (fetchBasicCursor env userId roomId s)
                 (\<lambda>cursor s'. CursorStore_set env userId roomId cursor s'))"

section \<open>current-user.js\<close>

text \<open>
  \<^verbatim>\<open>readCursor({ roomId, userId = this.id })\<close>: the default stands in for an \<^verbatim>\<open>undefined\<close>
  userId. The result is the error thrown (\<open>Inl\<close>) or the value returned.
\<close>

definition userId_or_default :: "state \<Rightarrow> jsval \<Rightarrow> jsval" where
  "userId_or_default st userId = (if userId = Undefined then Str (this_id st) else userId)"

definition readCursor :: "jsval \<Rightarrow> jsval \<Rightarrow> state \<Rightarrow> (error + val) \<times> state" where
  "readCursor roomId userId_arg st =
     (let userId = userId_or_default st userId_arg in
      case typeCheck ''roomId'' ''number'' roomId of Inl e \<Rightarrow> (Inl e, st) | Inr _ \<Rightarrow>
      case typeCheck ''userId'' ''string'' userId of Inl e \<Rightarrow> (Inl e, st) | Inr _ \<Rightarrow>
      if userId \<noteq> Str (this_id st) \<and> \<not> (num_of roomId \<in> roomSubscriptions st) then
        (let err = TypeError (''Must be subscribed to room '' @ num_str (num_of roomId) @
                              '' to access member's read cursors'')
         in (Inl err, st\<lparr> trace := trace st @ [Logger_error err] \<rparr>))
      else (Inr (CursorStore_getSync (str_of userId) (num_of roomId) st), st))"

text \<open>\<^verbatim>\<open>isDataAttachment\<close> and \<^verbatim>\<open>isLinkAttachment\<close>: the answer, or the TypeError thrown.\<close>

definition isDataAttachment :: "jsval \<Rightarrow> error + bool" where
  "isDataAttachment attachment =
     (case read_prop ''file'' attachment of Inl e \<Rightarrow> Inl e | Inr file \<Rightarrow>
      case read_prop ''name'' attachment of Inl e \<Rightarrow> Inl e | Inr name \<Rightarrow>
      if file = Undefined \<or> name = Undefined then Inr False
      else
        case typeCheck ''attachment.file'' ''object'' file of Inl e \<Rightarrow> Inl e | Inr _ \<Rightarrow>
        case typeCheck ''attachment.name'' ''string'' name of Inl e \<Rightarrow> Inl e | Inr _ \<Rightarrow>
          Inr True)"

definition isLinkAttachment :: "jsval \<Rightarrow> error + bool" where
  "isLinkAttachment attachment =
     (case read_prop ''link'' attachment of Inl e \<Rightarrow> Inl e | Inr link \<Rightarrow>
      case read_prop ''type'' attachment of Inl e \<Rightarrow> Inl e | Inr type \<Rightarrow>
      if link = Undefined \<or> type = Undefined then Inr False
      else
        case typeCheck ''attachment.link'' ''string'' link of Inl e \<Rightarrow> Inl e | Inr _ \<Rightarrow>
        case typeCheck ''attachment.type'' ''string'' type of Inl e \<Rightarrow> Inl e | Inr _ \<Rightarrow>
          Inr True)"

definition uploadDataAttachment :: "env \<Rightarrow> jsval \<Rightarrow> jsval \<Rightarrow> state \<Rightarrow> jsval promise \<times> state" where
  "uploadDataAttachment env roomId attachment st =
     then_p (instance_request env
               (POST_file roomId (field ''name'' attachment) (field ''file'' attachment)) st)
       (\<lambda>res s. (case JSON_parse env res of Inl e \<Rightarrow> (Rejected e, s) | Inr v \<Rightarrow> (Resolved v, s)))"

text \<open>
  The executor of the promise in \<^verbatim>\<open>sendMessage\<close>: the four branches in the source's order;
  an error thrown by a test rejects the promise.
\<close>

definition sendMessage_executor :: "env \<Rightarrow> jsval \<Rightarrow> jsval \<Rightarrow> state \<Rightarrow> jsval promise \<times> state" where
  "sendMessage_executor env roomId attachment st =
     (if attachment = Undefined then (Resolved Undefined, st)
      else
        case isDataAttachment attachment of
          Inl e \<Rightarrow> (Rejected e, st)
        | Inr True \<Rightarrow> uploadDataAttachment env roomId attachment st
        | Inr False \<Rightarrow>
            (case isLinkAttachment attachment of
               Inl e \<Rightarrow> (Rejected e, st)
             | Inr True \<Rightarrow>
                 (Resolved (Obj [(''resource_link'', field ''link'' attachment),
                                 (''type'', field ''type'' attachment)]), st)
             | Inr False \<Rightarrow> (Rejected (TypeError ''attachment was malformed''), st)))"

text \<open>
  \<^verbatim>\<open>sendMessage({ text, roomId, attachment })\<close>: \<open>Inl\<close> is the error thrown by a
  \<^verbatim>\<open>typeCheck\<close>, \<open>Inr\<close> the promise returned.
\<close>

definition sendMessage ::
  "env \<Rightarrow> jsval \<Rightarrow> jsval \<Rightarrow> jsval \<Rightarrow> state \<Rightarrow> (error + jsval promise) \<times> state" where
  "sendMessage env text roomId attachment st =
     (case typeCheck ''text'' ''string'' text of Inl e \<Rightarrow> (Inl e, st) | Inr _ \<Rightarrow>
      case typeCheck ''roomId'' ''number'' roomId of Inl e \<Rightarrow> (Inl e, st) | Inr _ \<Rightarrow>
        (let (p, st') =
           catch_p
             (then_p
                (then_p (sendMessage_executor env roomId attachment st)
                   (\<lambda>attachment s. instance_request env (POST_message roomId text attachment) s))
                (\<lambda>res s.
                   (case JSON_parse env res of
                      Inl e \<Rightarrow> (Rejected e, s)
                    | Inr v \<Rightarrow>
                        (case read_prop ''message_id'' v of
                           Inl e \<Rightarrow> (Rejected e, s)
                         | Inr m \<Rightarrow> (Resolved m, s)))))
             (\<lambda>err s.
                (Rejected err,
                 s\<lparr> trace := trace s @
                      [Logger_warn (''error sending message to room '' @ num_str (num_of roomId) @ '':'')
                         err] \<rparr>))
         in (Inr p, st')))"

text \<open>
  The caller's hooks: whether \<^verbatim>\<open>onNewReadCursor\<close> was supplied. Calling it is the event
  \<open>Hook_onNewReadCursor\<close>.
\<close>

record hooks =
  onNewReadCursor :: bool

definition isMemberOf :: "state \<Rightarrow> int \<Rightarrow> bool" where
  "isMemberOf st roomId = (roomId \<in> set (map Room_id (rooms st)))"

text \<open>The \<^verbatim>\<open>newCursor\<close> hook that \<^verbatim>\<open>subscribeToRoom\<close> gives the room's cursor subscription.\<close>

definition subscribeToRoom_newCursor :: "hooks \<Rightarrow> Cursor \<Rightarrow> state \<Rightarrow> state" where
  "subscribeToRoom_newCursor hooks cursor st =
     (if onNewReadCursor hooks \<and> cursor_type cursor = 0 \<and> cursor_userId cursor \<noteq> this_id st
      then st\<lparr> trace := trace st @ [Hook_onNewReadCursor cursor] \<rparr>
      else st)"

text \<open>
  The \<^verbatim>\<open>newCursor\<close> hook that \<^verbatim>\<open>establishCursorSubscription\<close> gives the user's cursor
  subscription.
\<close>

definition establishCursorSubscription_newCursor :: "hooks \<Rightarrow> Cursor \<Rightarrow> state \<Rightarrow> state" where
  "establishCursorSubscription_newCursor hooks cursor st =
     (if onNewReadCursor hooks \<and> cursor_type cursor = 0 \<and> isMemberOf st (cursor_roomId cursor)
      then st\<lparr> trace := trace st @ [Hook_onNewReadCursor cursor] \<rparr>
      else st)"

text \<open>Ramda's \<^verbatim>\<open>uniq\<close> keeps the first occurrence of each element.\<close>

fun uniq_from :: "'a list \<Rightarrow> 'a list \<Rightarrow> 'a list" where
  "uniq_from seen [] = []"
| "uniq_from seen (x # xs) =
     (if x \<in> set seen then uniq_from seen xs else x # uniq_from (x # seen) xs)"

definition uniq :: "'a list \<Rightarrow> 'a list" where
  "uniq xs = uniq_from [] xs"

text \<open>
  \<^verbatim>\<open>initializeUserStore\<close>: \<^verbatim>\<open>chain(prop('userIds'), this.rooms)\<close> is the concatenation of the
  rooms' member lists; \<^verbatim>\<open>userStore.initialize({})\<close> is the store's \<^verbatim>\<open>initialize\<close> with no
  entries.
\<close>

definition initializeUserStore :: "env \<Rightarrow> state \<Rightarrow> unit promise \<times> state" where
  "initializeUserStore env st =
     then_p
       (catch_p
          (UserStore_fetchMissingUsers env (uniq (concat (map Room_userIds (rooms st)))) st)
          (\<lambda>err s.
             (Resolved (Plain Undefined),
              s\<lparr> trace := trace s @ [Logger_warn ''error fetching initial user information:'' err] \<rparr>)))
       (\<lambda>_ s. (Resolved (), s\<lparr> userStore := Store_initialize Map.empty (userStore s) \<rparr>))"

section \<open>Sequences of calls, and the words of the specification\<close>

text \<open>
  A later history of the cursor store: calls of \<^verbatim>\<open>initialize\<close> and of \<^verbatim>\<open>set\<close>, in any
  order. \<open>leaves_key k\<close> holds of every \<^verbatim>\<open>initialize\<close> and of a \<^verbatim>\<open>set\<close> of another key.
\<close>

datatype cursor_call =
    Call_initialize "string \<rightharpoonup> basicCursor option"
  | Call_set string int "basicCursor option"

fun run_calls :: "env \<Rightarrow> cursor_call list \<Rightarrow> state \<Rightarrow> state" where
  "run_calls env [] st = st"
| "run_calls env (Call_initialize initial # calls) st =
     run_calls env calls (CursorStore_initialize initial st)"
| "run_calls env (Call_set userId roomId cursor # calls) st =
     run_calls env calls (snd (CursorStore_set env userId roomId cursor st))"

fun leaves_key :: "string \<Rightarrow> cursor_call \<Rightarrow> bool" where
  "leaves_key k (Call_initialize initial) = True"
| "leaves_key k (Call_set userId roomId cursor) = (key userId roomId \<noteq> k)"

text \<open>
  The specification's two shapes of an attachment, in its words: a data attachment has
  \<^verbatim>\<open>file\<close> and \<^verbatim>\<open>name\<close> present and well-typed (an object and a string), a link attachment
  has \<^verbatim>\<open>link\<close> and \<^verbatim>\<open>type\<close> present and well-typed (two strings).
\<close>

definition spec_data_attachment :: "jsval \<Rightarrow> bool" where
  "spec_data_attachment a =
     (field ''file'' a \<noteq> Undefined \<and> field ''name'' a \<noteq> Undefined \<and>
      typeof (field ''file'' a) = ''object'' \<and> typeof (field ''name'' a) = ''string'')"

definition spec_link_attachment :: "jsval \<Rightarrow> bool" where
  "spec_link_attachment a =
     (field ''link'' a \<noteq> Undefined \<and> field ''type'' a \<noteq> Undefined \<and>
      typeof (field ''link'' a) = ''string'' \<and> typeof (field ''type'' a) = ''string'')"

section \<open>A session to evaluate on\<close>

text \<open>
  The local user is alice, a member of room 7 and subscribed to it. The cursors server
  knows a read cursor of bob in room 7 and none of anybody else; a posted message gets the
  id 42. The bodies stand for the JSON texts.
\<close>

definition room_payload :: "(string \<times> jsval) list" where
  "room_payload =
     [(''id'', Num 7), (''name'', Str ''general''), (''created_at'', Str ''2018-05-01''),
      (''updated_at'', Str ''2018-05-02''), (''deleted_at'', Str ''2018-05-03'')]"

definition cursor_alice :: Cursor where
  "cursor_alice =
     \<lparr> position = 5, cursor_updatedAt = ''2018-05-01'', cursor_userId = ''alice'',
       cursor_roomId = 7, cursor_type = 0 \<rparr>"

definition cursor_bob :: Cursor where
  "cursor_bob =
     \<lparr> position = 3, cursor_updatedAt = ''2018-05-02'', cursor_userId = ''bob'',
       cursor_roomId = 7, cursor_type = 0 \<rparr>"

definition cursor_bob_elsewhere :: Cursor where
  "cursor_bob_elsewhere = cursor_bob \<lparr> cursor_roomId := 9 \<rparr>"

definition session :: state where
  "session =
     \<lparr> this_id = ''alice'',
       cursorStore = \<lparr> entries = Map.empty, initialized = True \<rparr>,
       userStore = \<lparr> entries = Map.empty, initialized = False \<rparr>,
       rooms = [\<lparr> Room_id = 7, Room_name = ''general'', Room_userIds = [''alice'', ''bob''] \<rparr>],
       roomSubscriptions = {7},
       trace = [] \<rparr>"

definition bob_data :: jsval where
  "bob_data =
     Obj [(''position'', Num 3), (''updated_at'', Str ''2018-05-02''), (''user_id'', Str ''bob''),
          (''room_id'', Num 7), (''cursor_type'', Num 0)]"

definition server :: env where
  "server =
     \<lparr> request =
         (\<lambda>req. case req of
            GET_cursor r u \<Rightarrow>
              (if u = ''bob'' \<and> r = 7 then Resolved ''cursor 3 of bob in room 7''
               else Resolved ''null'')
          | POST_file r n f \<Rightarrow> Resolved ''null''
          | POST_message r t a \<Rightarrow> Resolved ''message 42''),
       JSON_parse =
         (\<lambda>res. if res = ''null'' then Inr Null
                else if res = ''cursor 3 of bob in room 7'' then Inr bob_data
                else if res = ''message 42'' then Inr (Obj [(''message_id'', Num 42)])
                else Inl (SyntaxError res)),
       parseBasicCursor =
         (\<lambda>d. \<lparr> position = num_of (field ''position'' d),
                 cursor_updatedAt = str_of (field ''updated_at'' d),
                 cursor_userId = str_of (field ''user_id'' d),
                 cursor_roomId = num_of (field ''room_id'' d),
                 cursor_type = num_of (field ''cursor_type'' d) \<rparr>),
       fetchMissingUsers = (\<lambda>ids us. (Resolved (Plain Undefined), us)),
       set_resolves = (\<lambda>v. v) \<rparr>"

definition server_without_users :: env where
  "server_without_users =
     server \<lparr> fetchMissingUsers := (\<lambda>ids us. (Rejected (TransportError ''users unavailable''), us)) \<rparr>"

text \<open>The session after a first \<^verbatim>\<open>get\<close> of alice's, and of bob's, cursor in room 7.\<close>

definition after_get_alice :: state where
  "after_get_alice = snd (CursorStore_get server ''alice'' 7 session)"

definition after_get_bob :: state where
  "after_get_bob = snd (CursorStore_get server ''bob'' 7 session)"

section \<open>Values, properties and type checks\<close>

lemma read_prop_field:
  "data \<noteq> Undefined \<Longrightarrow> data \<noteq> Null \<Longrightarrow> read_prop k data = Inr (field k data)"
  by (cases data) (simp_all add: field_def)

lemma typeof_number: "typeof v = ''number'' \<longleftrightarrow> (\<exists>n. v = Num n)"
  by (cases v) simp_all

lemma key_alice: "key ''alice'' 7 = ''alice/7''"
  by (simp add: key_def num_str_def digits.simps)

lemma key_bob: "key ''bob'' 7 = ''bob/7''"
  by (simp add: key_def num_str_def digits.simps)

section \<open>The parsers\<close>

text \<open>
  C9. For every payload (a value whose properties can be read: anything but \<^verbatim>\<open>undefined\<close>
  and \<^verbatim>\<open>null\<close>), \<^verbatim>\<open>parsePresence\<close> returns a record whose state is the payload's
  \<^verbatim>\<open>state\<close> when that is exactly 'online' or 'offline', and 'unknown' for every other
  value; the state is always one of 'online', 'offline', 'unknown'.
\<close>

theorem parsePresence_state:
  assumes "data \<noteq> Undefined" and "data \<noteq> Null"
  shows "\<exists>p. parsePresence data = Inr p \<and>
           presence_state p =
             (if field ''state'' data = Str ''online'' \<or> field ''state'' data = Str ''offline''
              then field ''state'' data else Str ''unknown'') \<and>
           (presence_state p = Str ''online'' \<or> presence_state p = Str ''offline'' \<or>
            presence_state p = Str ''unknown'')"
  using assms by (auto simp: parsePresence_def read_prop_field contains_def)

text \<open>An offline user, and a user whose state is a word the parser does not know.\<close>

theorem parsePresence_state_witness:
  "Obj [(''state'', Str ''offline''), (''user_id'', Str ''alice'')] \<noteq> Undefined \<and>
   Obj [(''state'', Str ''offline''), (''user_id'', Str ''alice'')] \<noteq> Null \<and>
   parsePresence (Obj [(''state'', Str ''offline''), (''user_id'', Str ''alice'')]) =
     Inr \<lparr> lastSeenAt = Undefined, presence_state = Str ''offline'',
           presence_userId = Str ''alice'' \<rparr> \<and>
   parsePresence (Obj [(''state'', Str ''away''), (''user_id'', Str ''alice'')]) =
     Inr \<lparr> lastSeenAt = Undefined, presence_state = Str ''unknown'',
           presence_userId = Str ''alice'' \<rparr>"
  using parsePresence_state [of "Obj [(''state'', Str ''offline''), (''user_id'', Str ''alice'')]"]
    parsePresence_state [of "Obj [(''state'', Str ''away''), (''user_id'', Str ''alice'')]"]
  by (auto simp: field_def parsePresence_def contains_def)

lemma parsePresence_null:
  "parsePresence Null = Inl (TypeError ''Cannot read property last_seen_at of null'')"
  by (simp add: parsePresence_def)

lemma snake_case_deletedAt: "\<not> snake_case ''deletedAt''"
  by (simp add: snake_case_def)

lemma snake_keys_no_deletedAt:
  "list_all snake_case (map fst fs) \<Longrightarrow> map_of fs ''deletedAt'' = None"
  by (induction fs) (auto simp: snake_case_deletedAt)

text \<open>
  C10. \<^verbatim>\<open>parseBasicRoom\<close> reads the created and updated timestamps from the payload's
  \<^verbatim>\<open>created_at\<close> and \<^verbatim>\<open>updated_at\<close>, but the deleted timestamp from the camelCase
  \<^verbatim>\<open>deletedAt\<close>; so for every payload whose keys are all snake_case (\<^verbatim>\<open>deleted_at\<close>
  included) the parsed room's \<^verbatim>\<open>deletedAt\<close> is \<^verbatim>\<open>undefined\<close>.
\<close>

theorem parseBasicRoom_deletedAt:
  "\<exists>room. parseBasicRoom (Obj fs) = Inr room \<and>
      createdAt room = field ''created_at'' (Obj fs) \<and>
      updatedAt room = field ''updated_at'' (Obj fs) \<and>
      deletedAt room = field ''deletedAt'' (Obj fs) \<and>
      (list_all snake_case (map fst fs) \<longrightarrow> deletedAt room = Undefined)"
  by (simp add: parseBasicRoom_def field_def snake_keys_no_deletedAt)

text \<open>A room payload with a \<^verbatim>\<open>deleted_at\<close>: the parsed room has lost it.\<close>

theorem parseBasicRoom_deletedAt_witness:
  "list_all snake_case (map fst room_payload) \<and>
   field ''deleted_at'' (Obj room_payload) = Str ''2018-05-03'' \<and>
   parseBasicRoom (Obj room_payload) =
     Inr \<lparr> createdAt = Str ''2018-05-01'', createdByUserId = Undefined, deletedAt = Undefined,
           room_id = Num 7, isPrivate = Undefined, room_name = Str ''general'',
           updatedAt = Str ''2018-05-02'', userIds = Undefined \<rparr>"
  using parseBasicRoom_deletedAt [of room_payload]
  by (simp add: room_payload_def snake_case_def field_def parseBasicRoom_def)

section \<open>The cursor hooks\<close>

text \<open>
  C3, as the code has it. The \<^verbatim>\<open>newCursor\<close> hook of the user-scoped cursor subscription
  calls the caller's \<^verbatim>\<open>onNewReadCursor\<close>, once, exactly when the hook was supplied, the
  cursor's type is 0 and the cursor's room is one of the local user's rooms
  (\<^verbatim>\<open>isMemberOf\<close>); the cursor's userId is not looked at.
\<close>

theorem user_cursor_hook:
  "trace (establishCursorSubscription_newCursor hooks cursor st) =
     (if onNewReadCursor hooks \<and> cursor_type cursor = 0 \<and>
         cursor_roomId cursor \<in> set (map Room_id (rooms st))
      then trace st @ [Hook_onNewReadCursor cursor] else trace st)"
  by (simp add: establishCursorSubscription_newCursor_def isMemberOf_def)

text \<open>
  C3 as stated fails. The local user's own read cursor in room 7 reaches the caller's hook
  through the user-scoped subscription; and another user's read cursor in a room the local
  user is not a member of does not, though the room-scoped hook would forward it.
\<close>

theorem user_cursor_hook_counterexample:
  "cursor_type cursor_alice = 0 \<and> cursor_userId cursor_alice = this_id session \<and>
   trace (establishCursorSubscription_newCursor \<lparr> onNewReadCursor = True \<rparr> cursor_alice session) =
     [Hook_onNewReadCursor cursor_alice] \<and>
   cursor_type cursor_bob_elsewhere = 0 \<and> cursor_userId cursor_bob_elsewhere \<noteq> this_id session \<and>
   trace (establishCursorSubscription_newCursor \<lparr> onNewReadCursor = True \<rparr> cursor_bob_elsewhere
            session) = [] \<and>
   trace (subscribeToRoom_newCursor \<lparr> onNewReadCursor = True \<rparr> cursor_bob_elsewhere session) =
     [Hook_onNewReadCursor cursor_bob_elsewhere]"
  by (simp add: establishCursorSubscription_newCursor_def subscribeToRoom_newCursor_def
      isMemberOf_def cursor_alice_def cursor_bob_def cursor_bob_elsewhere_def session_def)

text \<open>
  C4. In the cursor subscription of a room, with local user id L, a read cursor (type 0)
  of user L never reaches the caller's \<^verbatim>\<open>onNewReadCursor\<close> (nothing happens at all), and a
  read cursor of another user calls it exactly once, given the caller supplied the hook.
\<close>

theorem room_cursor_hook:
  assumes "cursor_type cursor = 0"
  shows "(cursor_userId cursor = this_id st \<longrightarrow>
            subscribeToRoom_newCursor hooks cursor st = st) \<and>
         (cursor_userId cursor \<noteq> this_id st \<and> onNewReadCursor hooks \<longrightarrow>
            subscribeToRoom_newCursor hooks cursor st =
              st\<lparr> trace := trace st @ [Hook_onNewReadCursor cursor] \<rparr>)"
  using assms by (simp add: subscribeToRoom_newCursor_def)

text \<open>Alice's own cursor is dropped, bob's is forwarded once.\<close>

theorem room_cursor_hook_witness:
  "cursor_type cursor_alice = 0 \<and> cursor_userId cursor_alice = this_id session \<and>
   trace (subscribeToRoom_newCursor \<lparr> onNewReadCursor = True \<rparr> cursor_alice session) = [] \<and>
   cursor_type cursor_bob = 0 \<and> cursor_userId cursor_bob \<noteq> this_id session \<and>
   trace (subscribeToRoom_newCursor \<lparr> onNewReadCursor = True \<rparr> cursor_bob session) =
     [Hook_onNewReadCursor cursor_bob]"
  using room_cursor_hook [of cursor_alice session "\<lparr> onNewReadCursor = True \<rparr>"]
    room_cursor_hook [of cursor_bob session "\<lparr> onNewReadCursor = True \<rparr>"]
  by (simp add: cursor_alice_def cursor_bob_def session_def)

section \<open>The cursor store\<close>

lemma CursorStore_initialize_entries:
  "entries (cursorStore (CursorStore_initialize initial st)) k =
     (case entries (cursorStore st) k of
        Some v \<Rightarrow> Some v
      | None \<Rightarrow> map_option decorate (initial k))"
  by (simp add: CursorStore_initialize_def Store_initialize_def map_add_def split: option.splits)

lemma CursorStore_set_cursorStore:
  "cursorStore (snd (CursorStore_set env userId roomId c st)) =
     Store_set (key userId roomId) (decorate c) (cursorStore st)"
  by (simp add: CursorStore_set_def UserStore_fetchMissingUsers_def Let_def split: prod.splits)

lemma CursorStore_set_entries:
  "entries (cursorStore (snd (CursorStore_set env userId roomId c st))) k =
     (if k = key userId roomId then Some (decorate c) else entries (cursorStore st) k)"
  by (simp add: CursorStore_set_cursorStore Store_set_def)

lemma CursorStore_set_trace:
  "trace (snd (CursorStore_set env userId roomId c st)) = trace st @ [FetchMissingUsers [userId]]"
  by (simp add: CursorStore_set_def UserStore_fetchMissingUsers_def Let_def split: prod.splits)

lemma run_calls_keeps:
  "entries (cursorStore st) k = Some v \<Longrightarrow> list_all (leaves_key k) calls \<Longrightarrow>
   entries (cursorStore (run_calls env calls st)) k = Some v"
proof (induction calls arbitrary: st)
  case Nil
  then show ?case by simp
next
  case (Cons c calls)
  show ?case
  proof (cases c)
    case (Call_initialize initial)
    with Cons show ?thesis by (simp add: CursorStore_initialize_entries)
  next
    case (Call_set u r b)
    with Cons show ?thesis by (auto simp: CursorStore_set_entries)
  qed
qed

text \<open>
  C5. A \<^verbatim>\<open>set\<close> (also the one that follows a fetch) makes its key present. Once a key k
  maps to v, a call of \<^verbatim>\<open>initialize\<close> with an entry for k leaves k at v, and
  \<^verbatim>\<open>initialize\<close> gives a key that is absent the decorated entry; k stays at v through any
  later sequence of \<^verbatim>\<open>initialize\<close> calls, in any order with \<^verbatim>\<open>set\<close> calls of other keys.
\<close>

theorem initialize_merge_not_overwrite:
  "entries (cursorStore (snd (CursorStore_set env userId roomId c st))) (key userId roomId) =
     Some (decorate c) \<and>
   (entries (cursorStore st) k = Some v \<longrightarrow>
      entries (cursorStore (CursorStore_initialize initial st)) k = Some v) \<and>
   (entries (cursorStore st) k = None \<longrightarrow>
      entries (cursorStore (CursorStore_initialize initial st)) k = map_option decorate (initial k)) \<and>
   (entries (cursorStore st) k = Some v \<and> list_all (leaves_key k) calls \<longrightarrow>
      entries (cursorStore (run_calls env calls st)) k = Some v)"
  by (simp add: CursorStore_initialize_entries CursorStore_set_entries run_calls_keeps)

text \<open>
  Bob's cursor, once set, survives a snapshot that holds another cursor under its key; the
  snapshot fills the key of alice's cursor, which was absent.
\<close>

theorem initialize_merge_not_overwrite_witness:
  "entries (cursorStore (snd (CursorStore_set server ''bob'' 7 (Some cursor_bob) session))) ''bob/7'' =
     Some (CursorV cursor_bob) \<and>
   entries (cursorStore session) ''alice/7'' = None \<and>
   list_all (leaves_key ''bob/7'')
     [Call_initialize [''bob/7'' \<mapsto> Some cursor_alice], Call_set ''alice'' 7 None,
      Call_initialize Map.empty] \<and>
   entries (cursorStore (CursorStore_initialize [''bob/7'' \<mapsto> Some cursor_alice, ''alice/7'' \<mapsto> Some cursor_alice]
     (snd (CursorStore_set server ''bob'' 7 (Some cursor_bob) session)))) ''bob/7'' =
     Some (CursorV cursor_bob) \<and>
   entries (cursorStore (CursorStore_initialize [''bob/7'' \<mapsto> Some cursor_alice, ''alice/7'' \<mapsto> Some cursor_alice]
     session)) ''alice/7'' = Some (CursorV cursor_alice) \<and>
   entries (cursorStore (run_calls server
     [Call_initialize [''bob/7'' \<mapsto> Some cursor_alice], Call_set ''alice'' 7 None,
      Call_initialize Map.empty]
     (snd (CursorStore_set server ''bob'' 7 (Some cursor_bob) session)))) ''bob/7'' =
     Some (CursorV cursor_bob)"
  using initialize_merge_not_overwrite [where env = server and userId = "''bob''" and roomId = 7
      and c = "Some cursor_bob" and k = "''bob/7''" and v = "CursorV cursor_bob"
      and st = "snd (CursorStore_set server ''bob'' 7 (Some cursor_bob) session)"
      and initial = "[''bob/7'' \<mapsto> Some cursor_alice, ''alice/7'' \<mapsto> Some cursor_alice]"
      and calls = "[Call_initialize [''bob/7'' \<mapsto> Some cursor_alice], Call_set ''alice'' 7 None,
        Call_initialize Map.empty]"]
    initialize_merge_not_overwrite [where st = session and k = "''alice/7''"
      and initial = "[''bob/7'' \<mapsto> Some cursor_alice, ''alice/7'' \<mapsto> Some cursor_alice]"]
  by (simp add: CursorStore_set_entries key_bob key_alice session_def)

lemma fetchBasicCursor_cursorStore:
  "cursorStore (snd (fetchBasicCursor env userId roomId st)) = cursorStore st"
  by (simp add: fetchBasicCursor_def instance_request_def then_p_def catch_p_def
      split: promise.splits sum.splits)

lemma fetchBasicCursor_trace:
  "\<exists>rest. trace (snd (fetchBasicCursor env userId roomId st)) =
     trace st @ Request (GET_cursor roomId userId) # rest"
  by (simp add: fetchBasicCursor_def instance_request_def then_p_def catch_p_def
      split: promise.splits sum.splits)

lemma CursorStore_get_hit:
  assumes "initialized (cursorStore st)"
    and "entries (cursorStore st) (key userId roomId) = Some (CursorV c)"
  shows "CursorStore_get env userId roomId st = (Resolved (CursorV c), st)"
  using assms by (simp add: CursorStore_get_def Store_get_def Store_getSync_def then_p_def)

lemma CursorStore_get_initialized:
  assumes "CursorStore_get env userId roomId st = (Resolved v, st1)"
  shows "initialized (cursorStore st1)"
proof -
  have i: "initialized (cursorStore st)"
    using assms by (auto simp: CursorStore_get_def Store_get_def then_p_def split: if_splits)
  show ?thesis
  proof (cases "truthy_val (Store_getSync (key userId roomId) (cursorStore st))")
    case True
    with assms i show ?thesis
      by (simp add: CursorStore_get_def Store_get_def then_p_def)
  next
    case False
    obtain p s where f: "fetchBasicCursor env userId roomId st = (p, s)"
      by (cases "fetchBasicCursor env userId roomId st")
    then have s: "cursorStore s = cursorStore st"
      using fetchBasicCursor_cursorStore [of env userId roomId st] by simp
    from assms i False f have "\<exists>b. CursorStore_set env userId roomId b s = (Resolved v, st1)"
      by (cases p) (auto simp: CursorStore_get_def Store_get_def then_p_def)
    then obtain b where "CursorStore_set env userId roomId b s = (Resolved v, st1)" ..
    then have "st1 = snd (CursorStore_set env userId roomId b s)" by simp
    with s i show ?thesis
      by (simp add: CursorStore_set_cursorStore Store_set_def)
  qed
qed

lemma CursorStore_get_miss_trace:
  assumes "initialized (cursorStore st)"
    and "\<not> truthy_val (Store_getSync (key userId roomId) (cursorStore st))"
  shows "\<exists>rest. trace (snd (CursorStore_get env userId roomId st)) =
           trace st @ Request (GET_cursor roomId userId) # rest"
proof -
  obtain p s where f: "fetchBasicCursor env userId roomId st = (p, s)"
    by (cases "fetchBasicCursor env userId roomId st")
  obtain rest where r: "trace s = trace st @ Request (GET_cursor roomId userId) # rest"
    using fetchBasicCursor_trace [of env userId roomId st] f by auto
  show ?thesis
  proof (cases p)
    case (Resolved b)
    with assms f r show ?thesis
      by (simp add: CursorStore_get_def Store_get_def then_p_def CursorStore_set_trace)
  next
    case (Rejected e)
    with assms f r show ?thesis
      by (simp add: CursorStore_get_def Store_get_def then_p_def)
  next
    case Pending
    with assms f r show ?thesis
      by (simp add: CursorStore_get_def Store_get_def then_p_def)
  qed
qed

text \<open>The two first calls on the session: the server has no cursor of alice, and one of bob.\<close>

lemma get_alice:
  "CursorStore_get server ''alice'' 7 session =
     (Resolved (ArrayV [Plain Undefined, Plain Undefined]),
      session\<lparr> cursorStore := \<lparr> entries = [''alice/7'' \<mapsto> Plain Undefined], initialized = True \<rparr>,
               trace := [Request (GET_cursor 7 ''alice''), FetchMissingUsers [''alice'']] \<rparr>)"
  by (simp add: CursorStore_get_def Store_get_def Store_getSync_def then_p_def catch_p_def
      fetchBasicCursor_def instance_request_def CursorStore_set_def UserStore_fetchMissingUsers_def
      Store_set_def key_alice server_def session_def)

lemma get_bob:
  "CursorStore_get server ''bob'' 7 session =
     (Resolved (ArrayV [CursorV cursor_bob, Plain Undefined]),
      session\<lparr> cursorStore := \<lparr> entries = [''bob/7'' \<mapsto> CursorV cursor_bob], initialized = True \<rparr>,
               trace := [Request (GET_cursor 7 ''bob''), FetchMissingUsers [''bob'']] \<rparr>)"
  by (simp add: CursorStore_get_def Store_get_def Store_getSync_def then_p_def catch_p_def
      fetchBasicCursor_def instance_request_def CursorStore_set_def UserStore_fetchMissingUsers_def
      Store_set_def key_bob server_def session_def bob_data_def cursor_bob_def field_def)

lemma get_alice_again:
  "CursorStore_get server ''alice'' 7 after_get_alice =
     (Resolved (ArrayV [Plain Undefined, Plain Undefined]),
      after_get_alice\<lparr> trace := trace after_get_alice @
        [Request (GET_cursor 7 ''alice''), FetchMissingUsers [''alice'']] \<rparr>)"
  by (simp add: after_get_alice_def get_alice)
    (simp add: CursorStore_get_def Store_get_def Store_getSync_def then_p_def catch_p_def
      fetchBasicCursor_def instance_request_def CursorStore_set_def UserStore_fetchMissingUsers_def
      Store_set_def key_alice server_def session_def)

text \<open>
  C1, as the code has it. Let a first \<^verbatim>\<open>get(u, r)\<close> have resolved. If it left a decorated
  cursor under the key, a second \<^verbatim>\<open>get(u, r)\<close> (no \<^verbatim>\<open>set\<close> in between) resolves with that
  stored cursor and does nothing else: no request, no change of the state. If it left the
  "no cursor" outcome (the key present, the value \<^verbatim>\<open>undefined\<close>), the second call starts
  with the same request to the server again.
\<close>

theorem get_twice:
  assumes "CursorStore_get env userId roomId st = (Resolved v, st1)"
  shows "(entries (cursorStore st1) (key userId roomId) = Some (CursorV c) \<longrightarrow>
            CursorStore_get env userId roomId st1 = (Resolved (CursorV c), st1)) \<and>
         (entries (cursorStore st1) (key userId roomId) = Some (Plain Undefined) \<longrightarrow>
            (\<exists>rest. trace (snd (CursorStore_get env userId roomId st1)) =
               trace st1 @ Request (GET_cursor roomId userId) # rest))"
proof (intro conjI impI)
  have i: "initialized (cursorStore st1)"
    using assms by (rule CursorStore_get_initialized)
  {
    assume "entries (cursorStore st1) (key userId roomId) = Some (CursorV c)"
    with i show "CursorStore_get env userId roomId st1 = (Resolved (CursorV c), st1)"
      by (rule CursorStore_get_hit)
  next
    assume "entries (cursorStore st1) (key userId roomId) = Some (Plain Undefined)"
    then have "\<not> truthy_val (Store_getSync (key userId roomId) (cursorStore st1))"
      by (simp add: Store_getSync_def)
    with i show "\<exists>rest. trace (snd (CursorStore_get env userId roomId st1)) =
               trace st1 @ Request (GET_cursor roomId userId) # rest"
      by (rule CursorStore_get_miss_trace)
  }
qed

text \<open>
  C1 as stated fails. The server has no cursor of alice in room 7: the first \<^verbatim>\<open>get\<close> stores
  \<^verbatim>\<open>undefined\<close> under the key, and the second \<^verbatim>\<open>get\<close> sends the request again.
\<close>

theorem get_twice_counterexample:
  "CursorStore_get server ''alice'' 7 session =
     (Resolved (ArrayV [Plain Undefined, Plain Undefined]), after_get_alice) \<and>
   entries (cursorStore after_get_alice) (key ''alice'' 7) = Some (Plain Undefined) \<and>
   trace after_get_alice = [Request (GET_cursor 7 ''alice''), FetchMissingUsers [''alice'']] \<and>
   trace (snd (CursorStore_get server ''alice'' 7 after_get_alice)) =
     trace after_get_alice @ [Request (GET_cursor 7 ''alice''), FetchMissingUsers [''alice'']]"
  by (simp add: get_alice_again) (simp add: after_get_alice_def get_alice key_alice)

text \<open>After the first call, bob's cursor is served from the store; alice's is fetched again.\<close>

theorem get_twice_witness:
  "CursorStore_get server ''bob'' 7 session =
     (Resolved (ArrayV [CursorV cursor_bob, Plain Undefined]), after_get_bob) \<and>
   entries (cursorStore after_get_bob) (key ''bob'' 7) = Some (CursorV cursor_bob) \<and>
   CursorStore_get server ''bob'' 7 after_get_bob = (Resolved (CursorV cursor_bob), after_get_bob) \<and>
   CursorStore_get server ''alice'' 7 session =
     (Resolved (ArrayV [Plain Undefined, Plain Undefined]), after_get_alice) \<and>
   entries (cursorStore after_get_alice) (key ''alice'' 7) = Some (Plain Undefined) \<and>
   trace (snd (CursorStore_get server ''alice'' 7 after_get_alice)) =
     trace after_get_alice @ [Request (GET_cursor 7 ''alice''), FetchMissingUsers [''alice'']]"
proof -
  have b: "CursorStore_get server ''bob'' 7 session =
     (Resolved (ArrayV [CursorV cursor_bob, Plain Undefined]), after_get_bob)"
    by (simp add: after_get_bob_def get_bob)
  have eb: "entries (cursorStore after_get_bob) (key ''bob'' 7) = Some (CursorV cursor_bob)"
    by (simp add: after_get_bob_def get_bob key_bob)
  have a: "CursorStore_get server ''alice'' 7 session =
     (Resolved (ArrayV [Plain Undefined, Plain Undefined]), after_get_alice)"
    by (simp add: after_get_alice_def get_alice)
  have ea: "entries (cursorStore after_get_alice) (key ''alice'' 7) = Some (Plain Undefined)"
    by (simp add: after_get_alice_def get_alice key_alice)
  from get_twice [OF b, of cursor_bob] get_twice [OF a, of cursor_alice] a b ea eb
  show ?thesis by (simp add: get_alice_again)
qed

text \<open>
  C2, evaluated where it fails. The key of bob's cursor is absent and the server has the
  cursor: \<^verbatim>\<open>get\<close> fetches, decorates and stores it, but resolves with the array of
  \<^verbatim>\<open>Promise.all\<close> (what the store's \<^verbatim>\<open>set\<close> and \<^verbatim>\<open>fetchMissingUsers\<close> resolved with), not with
  the decorated cursor; on the next call, a hit, it resolves with the decorated cursor.
\<close>

theorem get_miss_resolves_with_array:
  "entries (cursorStore session) (key ''bob'' 7) = None \<and>
   fst (CursorStore_get server ''bob'' 7 session) =
     Resolved (ArrayV [CursorV cursor_bob, Plain Undefined]) \<and>
   fst (CursorStore_get server ''bob'' 7 session) \<noteq> Resolved (CursorV cursor_bob) \<and>
   CursorStore_getSync ''bob'' 7 after_get_bob = CursorV cursor_bob \<and>
   fst (CursorStore_get server ''bob'' 7 after_get_bob) = Resolved (CursorV cursor_bob)"
  by (simp add: after_get_bob_def get_bob CursorStore_getSync_def Store_getSync_def key_bob
      CursorStore_get_hit)
    (simp add: session_def)

text \<open>
  The same on every miss that goes well, whatever the collaborators resolve with: the
  result is an array of two values.
\<close>

lemma CursorStore_get_miss_array:
  assumes "initialized (cursorStore st)"
    and "entries (cursorStore st) (key userId roomId) = None"
    and "request env (GET_cursor roomId userId) = Resolved res"
    and "JSON_parse env res = Inr data"
    and "fetchMissingUsers env [userId] (userStore st) = (Resolved w, us)"
  shows "fst (CursorStore_get env userId roomId st) =
           Resolved (ArrayV [set_resolves env
             (decorate (if truthy data then Some (parseBasicCursor env data) else None)), w])"
  using assms
  by (simp add: CursorStore_get_def Store_get_def Store_getSync_def then_p_def catch_p_def
      fetchBasicCursor_def instance_request_def CursorStore_set_def UserStore_fetchMissingUsers_def)

section \<open>The current user\<close>

text \<open>
  C6. A call of \<^verbatim>\<open>readCursor\<close> whose userId (after the default) is not the local user's id
  and whose roomId has no entry in \<^verbatim>\<open>roomSubscriptions\<close> throws an error; nothing is done
  before it but, at most, the logging of that error. Every other call with a number as
  roomId and a string as userId returns \<^verbatim>\<open>cursorStore.getSync(userId, roomId)\<close> and leaves
  the state as it was.
\<close>

theorem readCursor_state_error:
  "(userId_or_default st userId \<noteq> Str (this_id st) \<and>
    (\<forall>n. roomId = Num n \<longrightarrow> n \<notin> roomSubscriptions st) \<longrightarrow>
      (\<exists>e. fst (readCursor roomId userId st) = Inl e \<and>
           (snd (readCursor roomId userId st) = st \<or>
            snd (readCursor roomId userId st) = st\<lparr> trace := trace st @ [Logger_error e] \<rparr>))) \<and>
   (typeof roomId = ''number'' \<and> typeof (userId_or_default st userId) = ''string'' \<and>
    \<not> (userId_or_default st userId \<noteq> Str (this_id st) \<and>
       num_of roomId \<notin> roomSubscriptions st) \<longrightarrow>
      readCursor roomId userId st =
        (Inr (CursorStore_getSync (str_of (userId_or_default st userId)) (num_of roomId) st), st))"
proof (intro conjI impI)
  assume a: "userId_or_default st userId \<noteq> Str (this_id st) \<and>
    (\<forall>n. roomId = Num n \<longrightarrow> n \<notin> roomSubscriptions st)"
  show "\<exists>e. fst (readCursor roomId userId st) = Inl e \<and>
           (snd (readCursor roomId userId st) = st \<or>
            snd (readCursor roomId userId st) = st\<lparr> trace := trace st @ [Logger_error e] \<rparr>)"
  proof (cases "typeof roomId = ''number''")
    case False
    then show ?thesis by (simp add: readCursor_def typeCheck_def Let_def)
  next
    case True
    then obtain n where n: "roomId = Num n" by (auto simp: typeof_number)
    with a have "n \<notin> roomSubscriptions st" by simp
    with a n show ?thesis
      by (simp add: readCursor_def typeCheck_def Let_def)
  qed
next
  assume "typeof roomId = ''number'' \<and> typeof (userId_or_default st userId) = ''string'' \<and>
    \<not> (userId_or_default st userId \<noteq> Str (this_id st) \<and>
       num_of roomId \<notin> roomSubscriptions st)"
  then show "readCursor roomId userId st =
        (Inr (CursorStore_getSync (str_of (userId_or_default st userId)) (num_of roomId) st), st)"
    by (auto simp: readCursor_def typeCheck_def Let_def)
qed

text \<open>
  Alice reads bob's cursor in room 9, which she is not subscribed to, and in room 7, which
  she is; and her own cursor in room 9.
\<close>

theorem readCursor_state_error_witness:
  "userId_or_default session (Str ''bob'') \<noteq> Str (this_id session) \<and>
   9 \<notin> roomSubscriptions session \<and>
   readCursor (Num 9) (Str ''bob'') session =
     (Inl (TypeError ''Must be subscribed to room 9 to access member's read cursors''),
      session\<lparr> trace := [Logger_error
        (TypeError ''Must be subscribed to room 9 to access member's read cursors'')] \<rparr>) \<and>
   7 \<in> roomSubscriptions session \<and>
   readCursor (Num 7) (Str ''bob'') session = (Inr (CursorStore_getSync ''bob'' 7 session), session) \<and>
   readCursor (Num 9) Undefined session = (Inr (CursorStore_getSync ''alice'' 9 session), session)"
  using readCursor_state_error [of session "Str ''bob''" "Num 9"]
    readCursor_state_error [of session "Str ''bob''" "Num 7"]
    readCursor_state_error [of session Undefined "Num 9"]
  by (auto simp: session_def userId_or_default_def readCursor_def typeCheck_def Let_def
      num_str_def digits.simps)

text \<open>
  C7. In \<^verbatim>\<open>initializeUserStore\<close>, when \<^verbatim>\<open>fetchMissingUsers\<close> over the user ids of all the
  rooms fails, the error is logged and swallowed and the user store is then initialized
  with an empty merge; the operation resolves whether the fetch failed or succeeded; and
  \<^verbatim>\<open>userStore.initialize({})\<close> runs on the state the settled fetch left, and not at all
  while the fetch is pending. The empty merge marks the store initialized and changes no
  entry.
\<close>

theorem initializeUserStore_settles:
  assumes "fetchMissingUsers env (uniq (concat (map Room_userIds (rooms st)))) (userStore st) = (p, us)"
  shows "(p = Rejected err \<longrightarrow>
            initializeUserStore env st =
              (Resolved (),
               st\<lparr> userStore := Store_initialize Map.empty us,
                   trace := trace st @
                     [FetchMissingUsers (uniq (concat (map Room_userIds (rooms st)))),
                      Logger_warn ''error fetching initial user information:'' err] \<rparr>)) \<and>
         (p = Resolved v \<longrightarrow>
            initializeUserStore env st =
              (Resolved (),
               st\<lparr> userStore := Store_initialize Map.empty us,
                   trace := trace st @
                     [FetchMissingUsers (uniq (concat (map Room_userIds (rooms st))))] \<rparr>)) \<and>
         (p = Pending \<longrightarrow>
            initializeUserStore env st =
              (Pending,
               st\<lparr> userStore := us,
                   trace := trace st @
                     [FetchMissingUsers (uniq (concat (map Room_userIds (rooms st))))] \<rparr>)) \<and>
         initialized (Store_initialize Map.empty us) \<and>
         entries (Store_initialize Map.empty us) = entries us"
  using assms
  by (simp add: initializeUserStore_def UserStore_fetchMissingUsers_def then_p_def catch_p_def
      Store_initialize_def)

text \<open>The user directory is down, and the user directory answers.\<close>

theorem initializeUserStore_settles_witness:
  "initializeUserStore server_without_users session =
     (Resolved (),
      session\<lparr> userStore := \<lparr> entries = Map.empty, initialized = True \<rparr>,
               trace := [FetchMissingUsers [''alice'', ''bob''],
                         Logger_warn ''error fetching initial user information:''
                           (TransportError ''users unavailable'')] \<rparr>) \<and>
   initializeUserStore server session =
     (Resolved (),
      session\<lparr> userStore := \<lparr> entries = Map.empty, initialized = True \<rparr>,
               trace := [FetchMissingUsers [''alice'', ''bob'']] \<rparr>)"
  using initializeUserStore_settles [of server_without_users session
      "Rejected (TransportError ''users unavailable'')" "userStore session"
      "TransportError ''users unavailable''"]
    initializeUserStore_settles [of server session "Resolved (Plain Undefined)" "userStore session"
      _ "Plain Undefined"]
  by (simp add: server_without_users_def server_def session_def uniq_def Store_initialize_def)

lemma isDataAttachment_not_spec:
  assumes "\<not> spec_data_attachment a"
  shows "isDataAttachment a = Inr False \<or> (\<exists>msg. isDataAttachment a = Inl (TypeError msg))"
proof (cases "a = Undefined \<or> a = Null")
  case True
  then show ?thesis by (auto simp: isDataAttachment_def)
next
  case False
  then have "read_prop ''file'' a = Inr (field ''file'' a)"
    and "read_prop ''name'' a = Inr (field ''name'' a)"
    by (simp_all add: read_prop_field)
  with assms show ?thesis
    by (auto simp: isDataAttachment_def spec_data_attachment_def typeCheck_def)
qed

lemma isLinkAttachment_not_spec:
  assumes "\<not> spec_link_attachment a"
  shows "isLinkAttachment a = Inr False \<or> (\<exists>msg. isLinkAttachment a = Inl (TypeError msg))"
proof (cases "a = Undefined \<or> a = Null")
  case True
  then show ?thesis by (auto simp: isLinkAttachment_def)
next
  case False
  then have "read_prop ''link'' a = Inr (field ''link'' a)"
    and "read_prop ''type'' a = Inr (field ''type'' a)"
    by (simp_all add: read_prop_field)
  with assms show ?thesis
    by (auto simp: isLinkAttachment_def spec_link_attachment_def typeCheck_def)
qed

lemma sendMessage_executor_malformed:
  assumes "attachment \<noteq> Undefined" and "\<not> spec_data_attachment attachment"
    and "\<not> spec_link_attachment attachment"
  shows "\<exists>msg. sendMessage_executor env roomId attachment st = (Rejected (TypeError msg), st)"
  using assms(1) isDataAttachment_not_spec [OF assms(2)] isLinkAttachment_not_spec [OF assms(3)]
  by (auto simp: sendMessage_executor_def)

text \<open>
  C8. When text is a string, roomId a number, and the attachment is defined but neither a
  data attachment nor a link attachment, \<^verbatim>\<open>sendMessage\<close> returns a promise rejected with a
  TypeError; all it has done is log that error: no request was issued, for the message or
  for a file.
\<close>

theorem sendMessage_malformed_attachment:
  assumes "typeof text = ''string''" and "typeof roomId = ''number''"
    and "attachment \<noteq> Undefined"
    and "\<not> spec_data_attachment attachment" and "\<not> spec_link_attachment attachment"
  shows "\<exists>msg. sendMessage env text roomId attachment st =
           (Inr (Rejected (TypeError msg)),
            st\<lparr> trace := trace st @
                 [Logger_warn (''error sending message to room '' @ num_str (num_of roomId) @ '':'')
                    (TypeError msg)] \<rparr>)"
proof -
  obtain msg where "sendMessage_executor env roomId attachment st = (Rejected (TypeError msg), st)"
    using sendMessage_executor_malformed [OF assms(3-5)] by blast
  with assms(1,2) show ?thesis
    by (simp add: sendMessage_def typeCheck_def then_p_def catch_p_def)
qed

text \<open>An attachment with a link and no type.\<close>

theorem sendMessage_malformed_attachment_witness:
  "typeof (Str ''hello'') = ''string'' \<and> typeof (Num 7) = ''number'' \<and>
   Obj [(''link'', Str ''https://example.org/cat.png'')] \<noteq> Undefined \<and>
   \<not> spec_data_attachment (Obj [(''link'', Str ''https://example.org/cat.png'')]) \<and>
   \<not> spec_link_attachment (Obj [(''link'', Str ''https://example.org/cat.png'')]) \<and>
   sendMessage server (Str ''hello'') (Num 7) (Obj [(''link'', Str ''https://example.org/cat.png'')])
       session =
     (Inr (Rejected (TypeError ''attachment was malformed'')),
      session\<lparr> trace := [Logger_warn ''error sending message to room 7:''
                            (TypeError ''attachment was malformed'')] \<rparr>)"
  using sendMessage_malformed_attachment [of "Str ''hello''" "Num 7"
      "Obj [(''link'', Str ''https://example.org/cat.png'')]" server session]
  by (auto simp: spec_data_attachment_def spec_link_attachment_def field_def session_def
      num_str_def digits.simps sendMessage_def typeCheck_def then_p_def catch_p_def
      sendMessage_executor_def isDataAttachment_def isLinkAttachment_def)

text \<open>
  A well-formed link attachment, for comparison: the message request is issued, with the
  attachment as \<^verbatim>\<open>{ resource_link, type }\<close>.
\<close>

lemma sendMessage_link_attachment:
  "sendMessage server (Str ''hello'') (Num 7)
     (Obj [(''link'', Str ''https://example.org/cat.png''), (''type'', Str ''image'')]) session =
     (Inr (Resolved (Num 42)),
      session\<lparr> trace :=
        [Request (POST_message (Num 7) (Str ''hello'')
           (Obj [(''resource_link'', Str ''https://example.org/cat.png''), (''type'', Str ''image'')]))] \<rparr>)"
  by (simp add: sendMessage_def typeCheck_def then_p_def catch_p_def sendMessage_executor_def
      isDataAttachment_def isLinkAttachment_def field_def instance_request_def server_def
      session_def)

end
